theory Spec2Isabelle
  imports Complex_Main "HOL-Library.Char_ord" "HOL-Library.List_Lexorder"
    "HOL-Library.Product_Lexorder"
begin

section \<open>Python values and the operations the add-on uses on them\<close>

text \<open>
  \<^verbatim>\<open>json.load\<close> produces \<^verbatim>\<open>None\<close>, \<^verbatim>\<open>bool\<close>, \<^verbatim>\<open>int\<close>, \<^verbatim>\<open>float\<close>, \<^verbatim>\<open>str\<close>,
  \<^verbatim>\<open>list\<close> and \<^verbatim>\<open>dict\<close> objects. A float is a finite rational, an infinity (with its
  sign) or a NaN: the add-on only ever tests a float for truth and for being an \<^verbatim>\<open>int\<close>.
  A dict is an association list in insertion order; a Python dict has no duplicate keys,
  which is the side condition \<open>distinct (map fst kvs)\<close> where a statement depends on it.
\<close>

datatype pyfloat = Finite rat | Infinite bool | NaN

datatype pyval =
    PNone
  | PBool bool
  | PInt int
  | PFloat pyfloat
  | PStr string
  | PList "pyval list"
  | PDict "(string \<times> pyval) list"

datatype exn =
    KeyError
  | TypeError
  | AttributeError
  | JSONDecodeError
  | UnicodeDecodeError
  | ValueError
  | URLError
  | IncompleteRead

text \<open>Sequencing of computations that may raise: the first exception is the result.\<close>

fun bind_exn :: "exn + 'a \<Rightarrow> ('a \<Rightarrow> exn + 'b) \<Rightarrow> exn + 'b" where
  "bind_exn (Inl e) f = Inl e"
| "bind_exn (Inr x) f = f x"

text \<open>\<^verbatim>\<open>v[k]\<close> for a string \<open>k\<close>: \<^verbatim>\<open>KeyError\<close> on a dict without the key, \<^verbatim>\<open>TypeError\<close> on
  every other kind of value (not subscriptable, or indices must be integers).\<close>

fun subscript :: "pyval \<Rightarrow> string \<Rightarrow> exn + pyval" where
  "subscript (PDict kvs) k = (case map_of kvs k of None \<Rightarrow> Inl KeyError | Some x \<Rightarrow> Inr x)"
| "subscript _ k = Inl TypeError"

text \<open>\<^verbatim>\<open>v[k1][k2]...[kn]\<close>, evaluated left to right.\<close>

fun subscripts :: "pyval \<Rightarrow> string list \<Rightarrow> exn + pyval" where
  "subscripts v [] = Inr v"
| "subscripts v (k # ks) = bind_exn (subscript v k) (\<lambda>x. subscripts x ks)"

text \<open>\<^verbatim>\<open>v.get(k, d)\<close>: only a dict has the method.\<close>

fun get :: "pyval \<Rightarrow> string \<Rightarrow> pyval \<Rightarrow> exn + pyval" where
  "get (PDict kvs) k d = Inr (case map_of kvs k of None \<Rightarrow> d | Some x \<Rightarrow> x)"
| "get _ k d = Inl AttributeError"

text \<open>\<^verbatim>\<open>v.keys()\<close>, in insertion order.\<close>

fun keys :: "pyval \<Rightarrow> exn + string list" where
  "keys (PDict kvs) = Inr (map fst kvs)"
| "keys _ = Inl AttributeError"

text \<open>Truth value testing, as \<^verbatim>\<open>if v:\<close> and \<^verbatim>\<open>and\<close> do it.\<close>

fun truthy :: "pyval \<Rightarrow> bool" where
  "truthy PNone = False"
| "truthy (PBool b) = b"
| "truthy (PInt i) = (i \<noteq> 0)"
| "truthy (PFloat (Finite q)) = (q \<noteq> 0)"
| "truthy (PFloat _) = True"
| "truthy (PStr s) = (s \<noteq> [])"
| "truthy (PList xs) = (xs \<noteq> [])"
| "truthy (PDict kvs) = (kvs \<noteq> [])"

text \<open>\<^verbatim>\<open>isinstance(v, int)\<close>: \<^verbatim>\<open>bool\<close> is a subclass of \<^verbatim>\<open>int\<close>.\<close>

fun isinstance_int :: "pyval \<Rightarrow> bool" where
  "isinstance_int (PInt i) = True"
| "isinstance_int (PBool b) = True"
| "isinstance_int _ = False"

section \<open>Dynamic enum callbacks\<close>

text \<open>The selection stored on the scene (\<^verbatim>\<open>context.scene.csd_sensor_properties\<close>); an enum
  that has no value reads as the empty string.\<close>

record props =
  manufacturers :: string
  models :: string
  formats :: string

type_synonym item = "string \<times> string \<times> string"

definition NO_DATA :: item where
  "NO_DATA = (''NONE'', ''No Data Found'', ''Please download the database in Add-on Preferences.'')"

definition NA :: item where
  "NA = (''NONE'', ''N/A'', '''')"

definition mk_item :: "string \<Rightarrow> item" where
  "mk_item m = (m, m, '''')"

text \<open>\<^verbatim>\<open>sorted(items) if items else [sentinel]\<close>; \<^verbatim>\<open>sorted\<close> compares the tuples
  lexicographically, and the strings in them by code point.\<close>

definition sorted_or :: "item \<Rightarrow> item list \<Rightarrow> item list" where
  "sorted_or sentinel items = (if items \<noteq> [] then sort items else [sentinel])"

definition get_manufacturers :: "pyval \<Rightarrow> exn + item list" where
  "get_manufacturers SENSOR_DATA =
     bind_exn (keys SENSOR_DATA) (\<lambda>ks.
       Inr (sorted_or NO_DATA (map mk_item ks)))"

definition get_models :: "pyval \<Rightarrow> props \<Rightarrow> exn + item list" where
  "get_models SENSOR_DATA p =
     (if manufacturers p = [] \<or> manufacturers p = ''NONE'' then Inr [NA]
      else
        bind_exn (get SENSOR_DATA (manufacturers p) (PDict [])) (\<lambda>ms.
        bind_exn (keys ms) (\<lambda>ks.
          Inr (sorted_or NA (map mk_item ks)))))"


section \<open>The host: camera, render settings and status reports\<close>

text \<open>
  The camera and the render settings belong to the host application. Their fields that the
  add-on assigns are modelled by name; everything else they hold is the field
  \<open>camera_other\<close>, respectively \<open>render_other\<close>. \<^verbatim>\<open>context.camera\<close> may be \<^verbatim>\<open>None\<close>.
\<close>

datatype status = FINISHED | CANCELLED

datatype level = INFO | WARNING | ERROR

text \<open>The messages of \<^verbatim>\<open>self.report\<close>, with the values their f-strings interpolate.\<close>

datatype message =
    Sensor_set_to pyval pyval
  | No_sensor_data
  | Sensor_data_not_found
  | Resolution_set_to pyval pyval
  | No_resolution_data
  | Resolution_data_not_found
  | Internet_disabled
  | Downloading
  | Saved_to
  | Download_failed exn

record 'o camera =
  sensor_fit :: string
  sensor_width :: pyval
  sensor_height :: pyval
  camera_other :: 'o

record 'o render =
  resolution_x :: pyval
  resolution_y :: pyval
  render_other :: 'o

record ('c, 'r) bpy_context =
  camera :: "'c camera option"
  render :: "'r render"
  selection :: props
  reports :: "(level \<times> message) list"

definition report :: "level \<Rightarrow> message \<Rightarrow> ('c, 'r) bpy_context \<Rightarrow> ('c, 'r) bpy_context" where
  "report l m ctx = ctx\<lparr>reports := reports ctx @ [(l, m)]\<rparr>"

text \<open>
  An assignment to a property of the host goes through the host's setter, which accepts
  the value or raises. The setters are not part of this repository and are parameters:
  \<open>float_prop\<close> for \<^verbatim>\<open>sensor_width\<close> and \<^verbatim>\<open>sensor_height\<close>, \<open>int_prop\<close> for \<^verbatim>\<open>resolution_x\<close> and
  \<^verbatim>\<open>resolution_y\<close>, \<open>string_prop\<close> for \<^verbatim>\<open>remote_sha\<close>; each gives \<open>None\<close> when it accepts
  and the exception when it raises. (\<^verbatim>\<open>sensor_fit = 'HORIZONTAL'\<close> assigns a constant of the
  enumeration.) When a setter accepts, the field of the model holds the Python value that
  was assigned; how the host converts and clamps an accepted value is not modelled.
\<close>

record host =
  float_prop :: "pyval \<Rightarrow> exn option"
  int_prop :: "pyval \<Rightarrow> exn option"
  string_prop :: "pyval \<Rightarrow> exn option"

section \<open>Operators that apply a selection\<close>

text \<open>The keys of
  \<^verbatim>\<open>SENSOR_DATA[props.manufacturers][props.models]["sensor dimensions"][props.formats][leaf]\<close>.\<close>

definition leaf_path :: "props \<Rightarrow> string \<Rightarrow> string list" where
  "leaf_path p leaf = [manufacturers p, models p, ''sensor dimensions'', formats p, leaf]"

text \<open>The keys down to the format record of the selection.\<close>

definition selection_path :: "props \<Rightarrow> string list" where
  "selection_path p = [manufacturers p, models p, ''sensor dimensions'', formats p]"

definition ApplySensor_poll :: "('c, 'r) bpy_context \<Rightarrow> bool" where
  "ApplySensor_poll ctx =
     (camera ctx \<noteq> None \<and> formats (selection ctx) \<noteq> [] \<and> formats (selection ctx) \<noteq> ''NONE'')"

text \<open>
  The body of the \<^verbatim>\<open>try\<close> statement of \<^verbatim>\<open>CSD_OT_ApplySensor.execute\<close>: what it returns or
  raises, and the context it leaves. The lookups raise before anything is assigned; a
  setter raises after the assignments that precede it.
\<close>

definition ApplySensor_try ::
  "host \<Rightarrow> pyval \<Rightarrow> ('c, 'r) bpy_context \<Rightarrow> (exn + status) \<times> ('c, 'r) bpy_context" where
  "ApplySensor_try H SENSOR_DATA ctx =
     (let p = selection ctx in
      (case bind_exn (subscripts SENSOR_DATA (leaf_path p ''mm'')) (\<lambda>format_data.
            bind_exn (get format_data ''width'' PNone) (\<lambda>width.
            bind_exn (get format_data ''height'' PNone) (\<lambda>height.
              Inr (width, height)))) of
         Inl e \<Rightarrow> (Inl e, ctx)
       | Inr (width, height) \<Rightarrow>
           if truthy width \<and> truthy height then
             (case camera ctx of
                None \<Rightarrow> (Inl AttributeError, ctx)
              | Some cam_data \<Rightarrow>
                  (let cam1 = cam_data\<lparr>sensor_fit := ''HORIZONTAL''\<rparr> in
                   (case float_prop H width of
                      Some e \<Rightarrow> (Inl e, ctx\<lparr>camera := Some cam1\<rparr>)
                    | None \<Rightarrow>
                        (let cam2 = cam1\<lparr>sensor_width := width\<rparr> in
                         (case float_prop H height of
                            Some e \<Rightarrow> (Inl e, ctx\<lparr>camera := Some cam2\<rparr>)
                          | None \<Rightarrow>
                              (Inr FINISHED,
                               report INFO (Sensor_set_to width height)
                                 (ctx\<lparr>camera := Some (cam2\<lparr>sensor_height := height\<rparr>)\<rparr>)))))))
           else (Inr CANCELLED, report WARNING No_sensor_data ctx)))"

text \<open>\<^verbatim>\<open>except KeyError\<close>, in the context the exception left: any other exception leaves
  \<^verbatim>\<open>execute\<close>.\<close>

definition ApplySensor_execute ::
  "host \<Rightarrow> pyval \<Rightarrow> ('c, 'r) bpy_context \<Rightarrow> (exn + status) \<times> ('c, 'r) bpy_context" where
  "ApplySensor_execute H SENSOR_DATA ctx =
     (case ApplySensor_try H SENSOR_DATA ctx of
        (Inl KeyError, c) \<Rightarrow> (Inr CANCELLED, report ERROR Sensor_data_not_found c)
      | r \<Rightarrow> r)"

definition ApplyResolution_poll_try :: "pyval \<Rightarrow> ('c, 'r) bpy_context \<Rightarrow> exn + bool" where
  "ApplyResolution_poll_try SENSOR_DATA ctx =
     (let p = selection ctx in
      bind_exn (subscripts SENSOR_DATA (leaf_path p ''resolution'')) (\<lambda>res_data.
      bind_exn (get res_data ''width'' PNone) (\<lambda>width.
      bind_exn (get res_data ''height'' PNone) (\<lambda>height.
        Inr (isinstance_int width \<and> isinstance_int height)))))"

definition ApplyResolution_poll :: "pyval \<Rightarrow> ('c, 'r) bpy_context \<Rightarrow> exn + bool" where
  "ApplyResolution_poll SENSOR_DATA ctx =
     (if formats (selection ctx) = [] \<or> formats (selection ctx) = ''NONE'' then Inr False
      else
        (case ApplyResolution_poll_try SENSOR_DATA ctx of
           Inl KeyError \<Rightarrow> Inr False
         | Inl TypeError \<Rightarrow> Inr False
         | r \<Rightarrow> r))"

definition ApplyResolution_try ::
  "host \<Rightarrow> pyval \<Rightarrow> ('c, 'r) bpy_context \<Rightarrow> (exn + status) \<times> ('c, 'r) bpy_context" where
  "ApplyResolution_try H SENSOR_DATA ctx =
     (let p = selection ctx in
      (case bind_exn (subscripts SENSOR_DATA (leaf_path p ''resolution'')) (\<lambda>res_data.
            bind_exn (get res_data ''width'' PNone) (\<lambda>width.
            bind_exn (get res_data ''height'' PNone) (\<lambda>height.
              Inr (width, height)))) of
         Inl e \<Rightarrow> (Inl e, ctx)
       | Inr (width, height) \<Rightarrow>
           if isinstance_int width \<and> isinstance_int height then
             (case int_prop H width of
                Some e \<Rightarrow> (Inl e, ctx)
              | None \<Rightarrow>
                  (let c1 = ctx\<lparr>render := (render ctx)\<lparr>resolution_x := width\<rparr>\<rparr> in
                   (case int_prop H height of
                      Some e \<Rightarrow> (Inl e, c1)
                    | None \<Rightarrow>
                        (Inr FINISHED,
                         report INFO (Resolution_set_to width height)
                           (c1\<lparr>render := (render c1)\<lparr>resolution_y := height\<rparr>\<rparr>)))))
           else (Inr CANCELLED, report WARNING No_resolution_data ctx)))"

definition ApplyResolution_execute ::
  "host \<Rightarrow> pyval \<Rightarrow> ('c, 'r) bpy_context \<Rightarrow> (exn + status) \<times> ('c, 'r) bpy_context" where
  "ApplyResolution_execute H SENSOR_DATA ctx =
     (case ApplyResolution_try H SENSOR_DATA ctx of
        (Inl KeyError, c) \<Rightarrow> (Inr CANCELLED, report ERROR Resolution_data_not_found c)
      | r \<Rightarrow> r)"

section \<open>The dataset store\<close>

text \<open>
  The state the store works on: the file \<^verbatim>\<open>sensors.json\<close> (\<open>None\<close> when it does not
  exist, otherwise its bytes), the global \<^verbatim>\<open>SENSOR_DATA\<close>, what was printed, and the
  add-on preferences. \<^verbatim>\<open>json.load\<close> on the opened file is a parameter: it gives the
  parsed value or the exception that reading and parsing the bytes raises.
\<close>

record app =
  sensors_file :: "string option"
  SENSOR_DATA :: pyval
  printed :: "string list"
  remote_sha :: pyval
  update_available :: bool
  last_checked :: string
  reported :: "(level \<times> message) list"

definition print :: "string \<Rightarrow> app \<Rightarrow> app" where
  "print line st = st\<lparr>printed := printed st @ [line]\<rparr>"

definition load_sensor_data :: "(string \<Rightarrow> exn + pyval) \<Rightarrow> app \<Rightarrow> exn + app" where
  "load_sensor_data json_load st =
     (case sensors_file st of
        Some content \<Rightarrow>
          (case json_load content of
             Inr v \<Rightarrow> Inr (print ''Camera Sensor Database: Loaded sensor data.'' (st\<lparr>SENSOR_DATA := v\<rparr>))
           | Inl JSONDecodeError \<Rightarrow>
               Inr (print ''Camera Sensor Database: Error reading sensors.json file.''
                      (st\<lparr>SENSOR_DATA := PDict []\<rparr>))
           | Inl e \<Rightarrow> Inl e)
      | None \<Rightarrow>
          Inr (print ''Camera Sensor Database: sensors.json not found.'' (st\<lparr>SENSOR_DATA := PDict []\<rparr>)))"

text \<open>
  What the network and the clock give to one run of \<^verbatim>\<open>CSD_OT_UpdateSensors.execute\<close>:
  each \<^verbatim>\<open>urlopen\<close> either raises or gives a response, whose \<^verbatim>\<open>read()\<close> either raises or
  gives the body.
\<close>

record env =
  online_access :: bool
  urlopen_sensors :: "exn + (exn + string)"
  urlopen_api :: "exn + (exn + string)"
  json_loads :: "string \<Rightarrow> exn + pyval"
  json_load :: "string \<Rightarrow> exn + pyval"
  now :: string

definition report_app :: "level \<Rightarrow> message \<Rightarrow> app \<Rightarrow> app" where
  "report_app l m st = st\<lparr>reported := reported st @ [(l, m)]\<rparr>"

text \<open>\<^verbatim>\<open>except Exception as e\<close>, in the state the exception left.\<close>

definition failed :: "exn \<Rightarrow> app \<Rightarrow> status \<times> app" where
  "failed e st = (CANCELLED, report_app ERROR (Download_failed e) st)"

definition UpdateSensors_execute :: "host \<Rightarrow> env \<Rightarrow> app \<Rightarrow> status \<times> app" where
  "UpdateSensors_execute H ev st =
     (if \<not> online_access ev then (CANCELLED, report_app WARNING Internet_disabled st)
      else
        (let st1 = report_app INFO Downloading st in
         (case urlopen_sensors ev of
            Inl e \<Rightarrow> failed e st1
          | Inr response \<Rightarrow>
              (let st2 = st1\<lparr>sensors_file := Some []\<rparr> in
               (case response of
                  Inl e \<Rightarrow> failed e st2
                | Inr body \<Rightarrow>
                    (let st3 = st2\<lparr>sensors_file := Some body\<rparr> in
                     (case urlopen_api ev of
                        Inl e \<Rightarrow> failed e st3
                      | Inr api_response \<Rightarrow>
                          (case bind_exn api_response (\<lambda>raw.
                                bind_exn (json_loads ev raw) (\<lambda>data. get data ''sha'' PNone)) of
                             Inl e \<Rightarrow> failed e st3
                           | Inr sha \<Rightarrow>
                               (case string_prop H sha of
                                  Some e \<Rightarrow> failed e st3
                                | None \<Rightarrow>
                                    (let st4 = st3\<lparr>remote_sha := sha, update_available := False,
                                                   last_checked := now ev\<rparr>;
                                         st5 = report_app INFO Saved_to st4
                                     in (case load_sensor_data (json_load ev) st5 of
                                           Inl e \<Rightarrow> failed e st5
                                         | Inr st6 \<Rightarrow> (FINISHED, st6))))))))))))"

section \<open>The data model of the specification\<close>











section \<open>Sample data\<close>

text \<open>The dataset of the specification's examples, with a second format that has no
  resolution and a second model that has no formats.\<close>

definition acme :: pyval where
  "acme = PDict [(''Acme'', PDict [(''X1'', PDict [(''sensor dimensions'', PDict
     [(''Full Frame'', PDict
        [(''mm'', PDict [(''width'', PFloat (Finite 36)), (''height'', PFloat (Finite 24))]),
         (''resolution'', PDict [(''width'', PInt 8192), (''height'', PInt 5464)])]),
      (''APS-C'', PDict
        [(''mm'', PDict [(''width'', PFloat (Finite (47/2))), (''height'', PFloat (Finite (78/5)))])])])]),
      (''A7'', PDict [])])]"

text \<open>A dataset with one manufacturer, one model and one format, whose record is given.\<close>

definition single_format :: "pyval \<Rightarrow> pyval" where
  "single_format leaf =
     PDict [(''Acme'', PDict [(''X1'', PDict [(''sensor dimensions'', PDict [(''Full Frame'', leaf)])])])]"

text \<open>A host context: a camera with automatic sensor fit, and the full-frame format selected.\<close>

definition ctx0 :: "(unit, unit) bpy_context" where
  "ctx0 = \<lparr>camera = Some \<lparr>sensor_fit = ''AUTO'', sensor_width = PFloat (Finite 36),
                          sensor_height = PFloat (Finite 24), camera_other = ()\<rparr>,
           render = \<lparr>resolution_x = PInt 1920, resolution_y = PInt 1080, render_other = ()\<rparr>,
           selection = \<lparr>manufacturers = ''Acme'', models = ''X1'', formats = ''Full Frame''\<rparr>,
           reports = []\<rparr>"

text \<open>
  A host for the examples, whose setters do what Blender's do on the values used below:
  a float property takes a number and raises \<^verbatim>\<open>TypeError\<close> on anything else, an integer
  property takes an \<^verbatim>\<open>int\<close> of 32 bits and raises \<^verbatim>\<open>ValueError\<close> on a larger one, a string
  property takes a string and raises \<^verbatim>\<open>TypeError\<close> on anything else. No theorem that
  quantifies over the host depends on it.
\<close>

definition blender :: host where
  "blender =
     \<lparr>float_prop = (\<lambda>v. case v of PInt i \<Rightarrow> None | PFloat f \<Rightarrow> None | PBool b \<Rightarrow> None
                         | _ \<Rightarrow> Some TypeError),
      int_prop = (\<lambda>v. case v of
                         PInt i \<Rightarrow> if - 2147483648 \<le> i \<and> i \<le> 2147483647 then None
                                   else Some ValueError
                       | PBool b \<Rightarrow> None
                       | _ \<Rightarrow> Some TypeError),
      string_prop = (\<lambda>v. case v of PStr s \<Rightarrow> None | _ \<Rightarrow> Some TypeError)\<rparr>"

text \<open>The values of \<^verbatim>\<open>json.load\<close> and \<^verbatim>\<open>json.loads\<close> on the four documents used below; the
  truncated document \<^verbatim>\<open>{\<close> stands for content that is not JSON.\<close>

definition json_sample :: "string \<Rightarrow> exn + pyval" where
  "json_sample s =
     (if s = ''[1]'' then Inr (PList [PInt 1])
      else if s = ''{}'' then Inr (PDict [])
      else if s = ''{\"Acme\": {}}'' then Inr (PDict [(''Acme'', PDict [])])
      else if s = ''{\"sha\": \"abc\"}'' then Inr (PDict [(''sha'', PStr ''abc'')])
      else Inl JSONDecodeError)"

text \<open>A store that holds a downloaded dataset, and a network that serves it.\<close>

definition st0 :: app where
  "st0 = \<lparr>sensors_file = Some ''{\"Acme\": {}}'', SENSOR_DATA = PDict [(''Acme'', PDict [])],
           printed = [], remote_sha = PStr '''', update_available = True,
           last_checked = ''Never'', reported = []\<rparr>"

definition ev0 :: env where
  "ev0 = \<lparr>online_access = True,
           urlopen_sensors = Inr (Inr ''{\"Acme\": {}}''),
           urlopen_api = Inr (Inr ''{\"sha\": \"abc\"}''),
           json_loads = json_sample, json_load = json_sample,
           now = ''November 03, 2026 at 10:00 AM''\<rparr>"

section \<open>Choice lists\<close>

lemma mk_item_le: "mk_item a \<le> mk_item b \<longleftrightarrow> a \<le> b"
  by (auto simp: mk_item_def less_eq_prod_def)

lemma insort_mk_item: "insort (mk_item x) (map mk_item xs) = map mk_item (insort x xs)"
  by (induction xs) (simp_all add: mk_item_le)

lemma sort_mk_item: "sort (map mk_item xs) = map mk_item (sort xs)"
  by (induction xs) (simp_all add: insort_mk_item)

lemma inj_mk_item: "inj mk_item"
  by (rule injI) (simp add: mk_item_def)

lemma sorted_or_keys:
  "sorted_or s (map mk_item ks) = (if ks = [] then [s] else map mk_item (sort ks))"
  by (simp add: sorted_or_def sort_mk_item)

lemma sorted_map_mk_item: "sorted (map mk_item ks) = sorted ks"
  by (induction ks) (auto simp: mk_item_le)

lemma map_fst_mk_item: "map fst (map mk_item ks) = ks"
  by (induction ks) (simp_all add: mk_item_def)






lemma keys_empty:
  "bind_exn (keys (PDict [])) (\<lambda>ks. Inr (sorted_or NA (map mk_item ks))) = Inr [NA]"
  by (simp add: sorted_or_def)





text \<open>
  C7, as stated, fails on the identifier of the sentinel. The sentinel entry of the empty
  dataset has the identifier \<^verbatim>\<open>NONE\<close>, which is what the selection stores. A dataset may
  have a manufacturer spelled \<^verbatim>\<open>NONE\<close>: its entry carries the same identifier, the
  identifier is then a valid lookup key, and \<^verbatim>\<open>get_models\<close> takes the selection of that
  manufacturer for the sentinel and hides its models.
\<close>

theorem sentinel_identifier_counterexample:
  "get_manufacturers (PDict []) = Inr [NO_DATA]
   \<and> fst NO_DATA = ''NONE''
   \<and> get_manufacturers (PDict [(''NONE'', PDict [(''X1'', PDict [])])])
       = Inr [(''NONE'', ''NONE'', '''')]
   \<and> subscript (PDict [(''NONE'', PDict [(''X1'', PDict [])])]) (fst NO_DATA)
       = Inr (PDict [(''X1'', PDict [])])
   \<and> get_models (PDict [(''NONE'', PDict [(''X1'', PDict [])])])
         \<lparr>manufacturers = ''NONE'', models = '''', formats = ''''\<rparr>
       = Inr [NA]"
  by (simp add: get_manufacturers_def get_models_def sorted_or_def mk_item_def NO_DATA_def)

text \<open>
  C7, amended. For every dataset (a dict with unique keys), \<^verbatim>\<open>get_manufacturers\<close> returns
  one entry per manufacturer key, sorted lexicographically and without duplicates; for the
  empty dataset it returns the single ``No Data Found'' entry. That entry differs from the
  entry of every real key, by its label and description; its identifier \<^verbatim>\<open>NONE\<close> differs
  from every real key that is not itself spelled \<^verbatim>\<open>NONE\<close>, and is not a valid lookup key
  of a dataset that has no such key.
\<close>

theorem manufacturer_choices_sorted_distinct:
  assumes "distinct (map fst kvs)"
  shows "\<exists>items. get_manufacturers (PDict kvs) = Inr items
           \<and> (kvs = [] \<longrightarrow> items = [NO_DATA])
           \<and> (kvs \<noteq> [] \<longrightarrow> items = map mk_item (sort (map fst kvs)))
           \<and> (kvs \<noteq> [] \<longrightarrow> set (map fst items) = set (map fst kvs))
           \<and> sorted items \<and> distinct items
           \<and> sorted (map fst items) \<and> distinct (map fst items)
           \<and> (\<forall>k. mk_item k \<noteq> NO_DATA)
           \<and> (\<forall>k. k \<noteq> ''NONE'' \<longrightarrow> fst (mk_item k) \<noteq> fst NO_DATA)
           \<and> (''NONE'' \<notin> set (map fst kvs) \<longrightarrow>
                subscript (PDict kvs) (fst NO_DATA) = Inl KeyError)"
proof -
  have ident: "\<forall>k. k \<noteq> ''NONE'' \<longrightarrow> fst (mk_item k) \<noteq> fst NO_DATA"
    by (simp add: mk_item_def NO_DATA_def)
  have entry: "\<forall>k. mk_item k \<noteq> NO_DATA"
    by (simp add: mk_item_def NO_DATA_def)
  have nokey: "''NONE'' \<notin> set (map fst kvs) \<longrightarrow>
      subscript (PDict kvs) (fst NO_DATA) = Inl KeyError"
  proof
    assume "''NONE'' \<notin> set (map fst kvs)"
    then have "map_of kvs ''NONE'' = None"
      by (simp add: map_of_eq_None_iff)
    then show "subscript (PDict kvs) (fst NO_DATA) = Inl KeyError"
      by (simp add: NO_DATA_def)
  qed
  show ?thesis
  proof (cases "kvs = []")
    case True
    then show ?thesis
      using ident entry by (simp add: get_manufacturers_def sorted_or_def NO_DATA_def)
  next
    case False
    let ?ks = "sort (map fst kvs)"
    have res: "get_manufacturers (PDict kvs) = Inr (map mk_item ?ks)"
      using False by (simp add: get_manufacturers_def sorted_or_keys)
    have d: "distinct ?ks" using assms by simp
    have di: "distinct (map mk_item ?ks)"
      using d by (simp add: distinct_map inj_on_def mk_item_def)
    have so: "sorted (map mk_item ?ks)"
      by (simp add: sorted_map_mk_item)
    have fs: "map fst (map mk_item ?ks) = ?ks"
      by (rule map_fst_mk_item)
    have a: "get_manufacturers (PDict kvs) = Inr (map mk_item ?ks)
           \<and> (kvs = [] \<longrightarrow> map mk_item ?ks = [NO_DATA])
           \<and> (kvs \<noteq> [] \<longrightarrow> map mk_item ?ks = map mk_item (sort (map fst kvs)))
           \<and> (kvs \<noteq> [] \<longrightarrow> set (map fst (map mk_item ?ks)) = set (map fst kvs))
           \<and> sorted (map mk_item ?ks) \<and> distinct (map mk_item ?ks)
           \<and> sorted (map fst (map mk_item ?ks)) \<and> distinct (map fst (map mk_item ?ks))"
      using False res d di so by (simp only: fs) simp
    show ?thesis
      using a entry ident nokey by (intro exI [of _ "map mk_item ?ks"]) blast
  qed
qed

theorem manufacturer_choices_witness:
  "distinct (map fst [(''Sony'', PDict []), (''ARRI'', PDict []), (''Canon'', PDict [])])
   \<and> get_manufacturers (PDict [(''Sony'', PDict []), (''ARRI'', PDict []), (''Canon'', PDict [])])
       = Inr [(''ARRI'', ''ARRI'', ''''), (''Canon'', ''Canon'', ''''), (''Sony'', ''Sony'', '''')]
   \<and> ''NONE'' \<notin> set (map fst [(''Sony'', PDict []), (''ARRI'', PDict []), (''Canon'', PDict [])])
   \<and> subscript (PDict [(''Sony'', PDict []), (''ARRI'', PDict []), (''Canon'', PDict [])])
         (fst NO_DATA) = Inl KeyError"
  using manufacturer_choices_sorted_distinct
    [of "[(''Sony'', PDict []), (''ARRI'', PDict []), (''Canon'', PDict [])]"]
  by (simp add: mk_item_def NO_DATA_def)



section \<open>Applying a resolution\<close>

lemmas apply_defs = ApplySensor_execute_def ApplySensor_try_def ApplyResolution_execute_def
  ApplyResolution_try_def ApplyResolution_poll_def ApplyResolution_poll_try_def leaf_path_def
  selection_path_def report_def single_format_def ctx0_def blender_def Let_def

lemma handler_finished:
  "(case r of (Inl KeyError, c) \<Rightarrow> (Inr CANCELLED, f c) | r' \<Rightarrow> r') = (Inr FINISHED, c')
     \<longleftrightarrow> r = (Inr FINISHED, c')"
  by (auto split: prod.splits sum.splits exn.splits)

lemma ApplyResolution_try_cases:
  "ApplyResolution_try H D ctx =
     (case subscripts D (leaf_path (selection ctx) ''resolution'') of
        Inl e \<Rightarrow> (Inl e, ctx)
      | Inr (PDict kvs) \<Rightarrow>
          (let width = (case map_of kvs ''width'' of None \<Rightarrow> PNone | Some x \<Rightarrow> x);
               height = (case map_of kvs ''height'' of None \<Rightarrow> PNone | Some x \<Rightarrow> x)
           in if isinstance_int width \<and> isinstance_int height then
                (case int_prop H width of
                   Some e \<Rightarrow> (Inl e, ctx)
                 | None \<Rightarrow>
                     (case int_prop H height of
                        Some e \<Rightarrow> (Inl e, ctx\<lparr>render := (render ctx)\<lparr>resolution_x := width\<rparr>\<rparr>)
                      | None \<Rightarrow>
                          (Inr FINISHED, report INFO (Resolution_set_to width height)
                             (ctx\<lparr>render := (render ctx)\<lparr>resolution_x := width,
                                                           resolution_y := height\<rparr>\<rparr>))))
              else (Inr CANCELLED, report WARNING No_resolution_data ctx))
      | Inr _ \<Rightarrow> (Inl AttributeError, ctx))"
  by (simp add: ApplyResolution_try_def Let_def report_def
        split: sum.splits pyval.splits option.splits)

lemma ApplyResolution_poll_try_cases:
  "ApplyResolution_poll_try D ctx =
     (case subscripts D (leaf_path (selection ctx) ''resolution'') of
        Inl e \<Rightarrow> Inl e
      | Inr (PDict kvs) \<Rightarrow>
          Inr (isinstance_int (case map_of kvs ''width'' of None \<Rightarrow> PNone | Some x \<Rightarrow> x)
             \<and> isinstance_int (case map_of kvs ''height'' of None \<Rightarrow> PNone | Some x \<Rightarrow> x))
      | Inr _ \<Rightarrow> Inl AttributeError)"
  by (simp add: ApplyResolution_poll_try_def Let_def split: sum.splits pyval.splits)

lemma isinstance_int_iff: "isinstance_int v \<longleftrightarrow> (\<exists>i. v = PInt i) \<or> (\<exists>b. v = PBool b)"
  by (cases v) simp_all

lemma not_int_field:
  "m = None \<or> (\<exists>f. m = Some (PFloat f)) \<Longrightarrow>
   \<not> isinstance_int (case m of None \<Rightarrow> PNone | Some x \<Rightarrow> x)"
  by auto

lemma int_field:
  "isinstance_int (case m of None \<Rightarrow> PNone | Some x \<Rightarrow> x) \<Longrightarrow> \<exists>w. m = Some w \<and> isinstance_int w"
  by (cases m) simp_all

lemma resolution_try_finished:
  assumes "ApplyResolution_try H D ctx = (Inr FINISHED, c)"
  shows "\<exists>kvs w h. subscripts D (leaf_path (selection ctx) ''resolution'') = Inr (PDict kvs)
           \<and> map_of kvs ''width'' = Some w \<and> map_of kvs ''height'' = Some h
           \<and> isinstance_int w \<and> isinstance_int h
           \<and> int_prop H w = None \<and> int_prop H h = None
           \<and> c = report INFO (Resolution_set_to w h)
                   (ctx\<lparr>render := (render ctx)\<lparr>resolution_x := w, resolution_y := h\<rparr>\<rparr>)"
proof (cases "subscripts D (leaf_path (selection ctx) ''resolution'')")
  case (Inl e)
  with assms show ?thesis by (simp add: ApplyResolution_try_cases)
next
  case (Inr res)
  show ?thesis
  proof (cases res)
    case (PDict kvs)
    let ?w = "case map_of kvs ''width'' of None \<Rightarrow> PNone | Some x \<Rightarrow> x"
    let ?h = "case map_of kvs ''height'' of None \<Rightarrow> PNone | Some x \<Rightarrow> x"
    from assms Inr PDict have ok: "isinstance_int ?w \<and> isinstance_int ?h"
      by (simp add: ApplyResolution_try_cases Let_def split: if_splits)
    then obtain w h where w: "map_of kvs ''width'' = Some w" "isinstance_int w"
      and h: "map_of kvs ''height'' = Some h" "isinstance_int h"
      using int_field by blast
    from assms Inr PDict w h have "int_prop H w = None \<and> int_prop H h = None
        \<and> c = report INFO (Resolution_set_to w h)
                (ctx\<lparr>render := (render ctx)\<lparr>resolution_x := w, resolution_y := h\<rparr>\<rparr>)"
      by (auto simp add: ApplyResolution_try_cases Let_def split: option.splits)
    with Inr PDict w h show ?thesis by simp
  qed (use assms Inr in \<open>simp_all add: ApplyResolution_try_cases\<close>)
qed

lemma resolution_finished:
  assumes "ApplyResolution_execute H D ctx = (Inr FINISHED, c)"
  shows "\<exists>kvs w h. subscripts D (leaf_path (selection ctx) ''resolution'') = Inr (PDict kvs)
           \<and> map_of kvs ''width'' = Some w \<and> map_of kvs ''height'' = Some h
           \<and> isinstance_int w \<and> isinstance_int h
           \<and> int_prop H w = None \<and> int_prop H h = None
           \<and> c = report INFO (Resolution_set_to w h)
                   (ctx\<lparr>render := (render ctx)\<lparr>resolution_x := w, resolution_y := h\<rparr>\<rparr>)"
proof -
  from assms have "ApplyResolution_try H D ctx = (Inr FINISHED, c)"
    by (simp only: ApplyResolution_execute_def handler_finished)
  then show ?thesis by (rule resolution_try_finished)
qed

lemma resolution_rejected:
  assumes "subscripts D (leaf_path (selection ctx) ''resolution'') = Inr (PDict kvs)"
    and "map_of kvs ''width'' = None \<or> (\<exists>f. map_of kvs ''width'' = Some (PFloat f))
       \<or> map_of kvs ''height'' = None \<or> (\<exists>f. map_of kvs ''height'' = Some (PFloat f))"
  shows "ApplyResolution_execute H D ctx = (Inr CANCELLED, report WARNING No_resolution_data ctx)"
    and "ApplyResolution_poll D ctx = Inr False"
proof -
  have "\<not> (isinstance_int (case map_of kvs ''width'' of None \<Rightarrow> PNone | Some x \<Rightarrow> x)
         \<and> isinstance_int (case map_of kvs ''height'' of None \<Rightarrow> PNone | Some x \<Rightarrow> x))"
    using assms(2) not_int_field by blast
  then show "ApplyResolution_execute H D ctx = (Inr CANCELLED, report WARNING No_resolution_data ctx)"
    and "ApplyResolution_poll D ctx = Inr False"
    using assms(1)
    by (auto simp add: ApplyResolution_execute_def ApplyResolution_try_cases
          ApplyResolution_poll_def ApplyResolution_poll_try_cases Let_def)
qed

lemma resolution_accepted:
  assumes "subscripts D (leaf_path (selection ctx) ''resolution'') = Inr (PDict kvs)"
    and "map_of kvs ''width'' = Some w" and "map_of kvs ''height'' = Some h"
    and "isinstance_int w" and "isinstance_int h"
    and "int_prop H w = None" and "int_prop H h = None"
  shows "ApplyResolution_execute H D ctx =
           (Inr FINISHED, report INFO (Resolution_set_to w h)
              (ctx\<lparr>render := (render ctx)\<lparr>resolution_x := w, resolution_y := h\<rparr>\<rparr>))"
  using assms by (simp add: ApplyResolution_execute_def ApplyResolution_try_cases)

lemma poll_true:
  assumes "ApplyResolution_poll D ctx = Inr True"
  shows "\<exists>kvs w h. subscripts D (leaf_path (selection ctx) ''resolution'') = Inr (PDict kvs)
           \<and> map_of kvs ''width'' = Some w \<and> map_of kvs ''height'' = Some h
           \<and> isinstance_int w \<and> isinstance_int h"
proof (cases "subscripts D (leaf_path (selection ctx) ''resolution'')")
  case (Inl e)
  with assms show ?thesis
    by (cases e)
       (simp_all add: ApplyResolution_poll_def ApplyResolution_poll_try_cases split: if_splits)
next
  case (Inr res)
  show ?thesis
  proof (cases res)
    case (PDict kvs)
    let ?w = "case map_of kvs ''width'' of None \<Rightarrow> PNone | Some x \<Rightarrow> x"
    let ?h = "case map_of kvs ''height'' of None \<Rightarrow> PNone | Some x \<Rightarrow> x"
    from assms Inr PDict have "isinstance_int ?w \<and> isinstance_int ?h"
      by (simp add: ApplyResolution_poll_def ApplyResolution_poll_try_cases split: if_splits)
    then obtain w h where "map_of kvs ''width'' = Some w" "isinstance_int w"
      and "map_of kvs ''height'' = Some h" "isinstance_int h"
      using int_field by blast
    with Inr PDict show ?thesis by simp
  qed (use assms Inr in \<open>simp_all add: ApplyResolution_poll_def ApplyResolution_poll_try_cases
         split: if_splits\<close>)
qed

text \<open>
  C1, as stated, fails on a JSON boolean: with \<^verbatim>\<open>"width": true\<close> the field is not an
  integer, yet \<^verbatim>\<open>execute\<close> finishes and hands \<^verbatim>\<open>True\<close> and \<^verbatim>\<open>5464\<close> to the render settings.
\<close>

theorem resolution_boolean_counterexample:
  "subscripts (single_format (PDict [(''resolution'',
        PDict [(''width'', PBool True), (''height'', PInt 5464)])]))
     [''Acme'', ''X1'', ''sensor dimensions'', ''Full Frame'', ''resolution'', ''width'']
     = Inr (PBool True)
   \<and> ApplyResolution_execute blender
       (single_format (PDict [(''resolution'',
          PDict [(''width'', PBool True), (''height'', PInt 5464)])])) ctx0
     = (Inr FINISHED,
        ctx0\<lparr>render := \<lparr>resolution_x = PBool True, resolution_y = PInt 5464, render_other = ()\<rparr>,
             reports := [(INFO, Resolution_set_to (PBool True) (PInt 5464))]\<rparr>)"
  by (simp add: apply_defs)

text \<open>
  C1, amended. \<^verbatim>\<open>CSD_OT_ApplyResolution.execute\<close> hands over a width/height pair only when
  the \<^verbatim>\<open>resolution\<close> object has both fields and each is an instance of Python's \<^verbatim>\<open>int\<close>
  (a JSON integer or a JSON boolean), and the pair it hands over is the pair of the dataset,
  unchanged; \<^verbatim>\<open>poll\<close> is true only in that case too. When either field is missing or is a
  float, \<^verbatim>\<open>execute\<close> cancels with the ``no resolution data'' warning, writes nothing, and
  \<^verbatim>\<open>poll\<close> is false.
\<close>

theorem resolution_needs_int_instances:
  "(ApplyResolution_execute H D ctx = (Inr FINISHED, c) \<longrightarrow>
      (\<exists>kvs w h. subscripts D (leaf_path (selection ctx) ''resolution'') = Inr (PDict kvs)
         \<and> map_of kvs ''width'' = Some w \<and> map_of kvs ''height'' = Some h
         \<and> ((\<exists>i. w = PInt i) \<or> (\<exists>b. w = PBool b))
         \<and> ((\<exists>i. h = PInt i) \<or> (\<exists>b. h = PBool b))
         \<and> render c = (render ctx)\<lparr>resolution_x := w, resolution_y := h\<rparr>))
   \<and> (ApplyResolution_poll D ctx = Inr True \<longrightarrow>
      (\<exists>kvs w h. subscripts D (leaf_path (selection ctx) ''resolution'') = Inr (PDict kvs)
         \<and> map_of kvs ''width'' = Some w \<and> map_of kvs ''height'' = Some h
         \<and> ((\<exists>i. w = PInt i) \<or> (\<exists>b. w = PBool b))
         \<and> ((\<exists>i. h = PInt i) \<or> (\<exists>b. h = PBool b))))
   \<and> (subscripts D (leaf_path (selection ctx) ''resolution'') = Inr (PDict kvs)
        \<and> (map_of kvs ''width'' = None \<or> (\<exists>f. map_of kvs ''width'' = Some (PFloat f))
           \<or> map_of kvs ''height'' = None \<or> (\<exists>f. map_of kvs ''height'' = Some (PFloat f)))
      \<longrightarrow> ApplyResolution_execute H D ctx = (Inr CANCELLED, report WARNING No_resolution_data ctx)
          \<and> ApplyResolution_poll D ctx = Inr False)"
proof (intro conjI impI)
  assume "ApplyResolution_execute H D ctx = (Inr FINISHED, c)"
  from resolution_finished [OF this]
  show "\<exists>kvs w h. subscripts D (leaf_path (selection ctx) ''resolution'') = Inr (PDict kvs)
         \<and> map_of kvs ''width'' = Some w \<and> map_of kvs ''height'' = Some h
         \<and> ((\<exists>i. w = PInt i) \<or> (\<exists>b. w = PBool b))
         \<and> ((\<exists>i. h = PInt i) \<or> (\<exists>b. h = PBool b))
         \<and> render c = (render ctx)\<lparr>resolution_x := w, resolution_y := h\<rparr>"
    by (auto simp: isinstance_int_iff report_def)
next
  assume "ApplyResolution_poll D ctx = Inr True"
  from poll_true [OF this]
  show "\<exists>kvs w h. subscripts D (leaf_path (selection ctx) ''resolution'') = Inr (PDict kvs)
         \<and> map_of kvs ''width'' = Some w \<and> map_of kvs ''height'' = Some h
         \<and> ((\<exists>i. w = PInt i) \<or> (\<exists>b. w = PBool b))
         \<and> ((\<exists>i. h = PInt i) \<or> (\<exists>b. h = PBool b))"
    by (auto simp: isinstance_int_iff)
next
  assume a: "subscripts D (leaf_path (selection ctx) ''resolution'') = Inr (PDict kvs)
        \<and> (map_of kvs ''width'' = None \<or> (\<exists>f. map_of kvs ''width'' = Some (PFloat f))
           \<or> map_of kvs ''height'' = None \<or> (\<exists>f. map_of kvs ''height'' = Some (PFloat f)))"
  then show "ApplyResolution_execute H D ctx = (Inr CANCELLED, report WARNING No_resolution_data ctx)"
    using resolution_rejected(1) by blast
  from a show "ApplyResolution_poll D ctx = Inr False"
    using resolution_rejected(2) by blast
qed

theorem resolution_needs_int_instances_witness:
  "ApplyResolution_execute blender acme ctx0
     = (Inr FINISHED,
        ctx0\<lparr>render := \<lparr>resolution_x = PInt 8192, resolution_y = PInt 5464, render_other = ()\<rparr>,
             reports := [(INFO, Resolution_set_to (PInt 8192) (PInt 5464))]\<rparr>)
   \<and> ApplyResolution_poll acme ctx0 = Inr True
   \<and> subscripts (single_format (PDict [(''resolution'',
          PDict [(''width'', PFloat (Finite (16385 / 2))), (''height'', PInt 5464)])]))
        (leaf_path (selection ctx0) ''resolution'')
       = Inr (PDict [(''width'', PFloat (Finite (16385 / 2))), (''height'', PInt 5464)])
   \<and> ApplyResolution_execute blender
        (single_format (PDict [(''resolution'',
          PDict [(''width'', PFloat (Finite (16385 / 2))), (''height'', PInt 5464)])])) ctx0
       = (Inr CANCELLED, ctx0\<lparr>reports := [(WARNING, No_resolution_data)]\<rparr>)
   \<and> ApplyResolution_poll
        (single_format (PDict [(''resolution'',
          PDict [(''width'', PFloat (Finite (16385 / 2))), (''height'', PInt 5464)])])) ctx0
       = Inr False"
  using resolution_needs_int_instances
    [where H = blender and D = acme and ctx = ctx0
       and c = "ctx0\<lparr>render := \<lparr>resolution_x = PInt 8192, resolution_y = PInt 5464, render_other = ()\<rparr>,
                 reports := [(INFO, Resolution_set_to (PInt 8192) (PInt 5464))]\<rparr>"]
    resolution_needs_int_instances
    [where H = blender
       and D = "single_format (PDict [(''resolution'',
          PDict [(''width'', PFloat (Finite (16385 / 2))), (''height'', PInt 5464)])])"
       and ctx = ctx0
       and kvs = "[(''width'', PFloat (Finite (16385 / 2))), (''height'', PInt 5464)]"]
  by (simp add: apply_defs acme_def)

text \<open>
  C10, as stated, fails when the other field does not pass the check: with
  \<^verbatim>\<open>"width": true\<close> beside \<^verbatim>\<open>"height": 5464.5\<close> the boolean is accepted, the float is not, and
  the resolution is treated as absent: \<^verbatim>\<open>execute\<close> cancels with ``Selected format has no
  resolution data.'' and \<^verbatim>\<open>poll\<close> is false.
\<close>

theorem boolean_beside_float_counterexample:
  "subscripts (single_format (PDict [(''resolution'',
        PDict [(''width'', PBool True), (''height'', PFloat (Finite (10929 / 2)))])]))
     [''Acme'', ''X1'', ''sensor dimensions'', ''Full Frame'', ''resolution'', ''width'']
     = Inr (PBool True)
   \<and> ApplyResolution_execute blender
       (single_format (PDict [(''resolution'',
          PDict [(''width'', PBool True), (''height'', PFloat (Finite (10929 / 2)))])])) ctx0
     = (Inr CANCELLED, ctx0\<lparr>reports := [(WARNING, No_resolution_data)]\<rparr>)
   \<and> ApplyResolution_poll
       (single_format (PDict [(''resolution'',
          PDict [(''width'', PBool True), (''height'', PFloat (Finite (10929 / 2)))])])) ctx0
     = Inr False"
  by (simp add: apply_defs)

text \<open>
  C10, amended. When the width or the height of a format's resolution is a JSON boolean,
  \<^verbatim>\<open>isinstance(_, int)\<close> accepts that value as an integer; the resolution is applied rather
  than treated as absent when the other field passes the check as well and the host's
  setter takes both values: \<^verbatim>\<open>execute\<close> then finishes, handing both values to the render
  settings as they are, and \<^verbatim>\<open>poll\<close> is true for a selected format.
\<close>

theorem boolean_passes_int_check:
  assumes "subscripts D (leaf_path (selection ctx) ''resolution'') = Inr (PDict kvs)"
    and "map_of kvs ''width'' = Some w" and "map_of kvs ''height'' = Some h"
    and "w = PBool b \<and> isinstance_int h \<or> isinstance_int w \<and> h = PBool b"
    and "int_prop H w = None" and "int_prop H h = None"
  shows "isinstance_int (PBool b)
       \<and> ApplyResolution_execute H D ctx =
           (Inr FINISHED, report INFO (Resolution_set_to w h)
              (ctx\<lparr>render := (render ctx)\<lparr>resolution_x := w, resolution_y := h\<rparr>\<rparr>))
       \<and> (formats (selection ctx) \<noteq> [] \<and> formats (selection ctx) \<noteq> ''NONE''
            \<longrightarrow> ApplyResolution_poll D ctx = Inr True)"
proof -
  from assms(4) have ok: "isinstance_int w \<and> isinstance_int h" by auto
  have "ApplyResolution_execute H D ctx =
           (Inr FINISHED, report INFO (Resolution_set_to w h)
              (ctx\<lparr>render := (render ctx)\<lparr>resolution_x := w, resolution_y := h\<rparr>\<rparr>))"
    using resolution_accepted [OF assms(1-3) _ _ assms(5,6)] ok by simp
  moreover have "formats (selection ctx) \<noteq> [] \<and> formats (selection ctx) \<noteq> ''NONE''
            \<longrightarrow> ApplyResolution_poll D ctx = Inr True"
    using assms(1-3) ok by (simp add: ApplyResolution_poll_def ApplyResolution_poll_try_cases)
  ultimately show ?thesis by simp
qed

theorem boolean_passes_int_check_witness:
  "subscripts (single_format (PDict [(''resolution'',
        PDict [(''width'', PInt 8192), (''height'', PBool False)])]))
     (leaf_path (selection ctx0) ''resolution'')
     = Inr (PDict [(''width'', PInt 8192), (''height'', PBool False)])
   \<and> int_prop blender (PInt 8192) = None \<and> int_prop blender (PBool False) = None
   \<and> ApplyResolution_execute blender
       (single_format (PDict [(''resolution'',
          PDict [(''width'', PInt 8192), (''height'', PBool False)])])) ctx0
     = (Inr FINISHED,
        ctx0\<lparr>render := \<lparr>resolution_x = PInt 8192, resolution_y = PBool False, render_other = ()\<rparr>,
             reports := [(INFO, Resolution_set_to (PInt 8192) (PBool False))]\<rparr>)
   \<and> ApplyResolution_poll
       (single_format (PDict [(''resolution'',
          PDict [(''width'', PInt 8192), (''height'', PBool False)])])) ctx0
     = Inr True"
  using boolean_passes_int_check
    [where H = blender
       and D = "single_format (PDict [(''resolution'',
          PDict [(''width'', PInt 8192), (''height'', PBool False)])])"
       and ctx = ctx0 and kvs = "[(''width'', PInt 8192), (''height'', PBool False)]"
       and w = "PInt 8192" and h = "PBool False" and b = False]
  by (simp add: apply_defs)

section \<open>Applying sensor dimensions\<close>

lemma ApplySensor_try_cases:
  "ApplySensor_try H D ctx =
     (case subscripts D (leaf_path (selection ctx) ''mm'') of
        Inl e \<Rightarrow> (Inl e, ctx)
      | Inr (PDict kvs) \<Rightarrow>
          (let width = (case map_of kvs ''width'' of None \<Rightarrow> PNone | Some x \<Rightarrow> x);
               height = (case map_of kvs ''height'' of None \<Rightarrow> PNone | Some x \<Rightarrow> x)
           in if truthy width \<and> truthy height then
                (case camera ctx of
                   None \<Rightarrow> (Inl AttributeError, ctx)
                 | Some cam_data \<Rightarrow>
                     (case float_prop H width of
                        Some e \<Rightarrow>
                          (Inl e, ctx\<lparr>camera := Some (cam_data\<lparr>sensor_fit := ''HORIZONTAL''\<rparr>)\<rparr>)
                      | None \<Rightarrow>
                          (case float_prop H height of
                             Some e \<Rightarrow>
                               (Inl e, ctx\<lparr>camera := Some (cam_data\<lparr>sensor_fit := ''HORIZONTAL'',
                                                                  sensor_width := width\<rparr>)\<rparr>)
                           | None \<Rightarrow>
                               (Inr FINISHED, report INFO (Sensor_set_to width height)
                                  (ctx\<lparr>camera := Some (cam_data\<lparr>sensor_fit := ''HORIZONTAL'',
                                                                sensor_width := width,
                                                                sensor_height := height\<rparr>)\<rparr>)))))
              else (Inr CANCELLED, report WARNING No_sensor_data ctx))
      | Inr _ \<Rightarrow> (Inl AttributeError, ctx))"
  by (simp add: ApplySensor_try_def Let_def
        split: sum.splits pyval.splits option.splits)

lemma falsy_field:
  "(case m of None \<Rightarrow> True | Some v \<Rightarrow> \<not> truthy v) \<Longrightarrow>
   \<not> truthy (case m of None \<Rightarrow> PNone | Some x \<Rightarrow> x)"
  by (cases m) simp_all

text \<open>
  C4, as stated, fails on a zero: the \<^verbatim>\<open>mm\<close> object below has both fields, the width is
  \<^verbatim>\<open>0.0\<close>, and \<^verbatim>\<open>execute\<close> cancels with ``Selected format has no sensor data.''
\<close>

theorem sensor_zero_counterexample:
  "subscripts (single_format (PDict [(''mm'',
        PDict [(''width'', PFloat (Finite 0)), (''height'', PFloat (Finite 24))])]))
     (leaf_path (selection ctx0) ''mm'')
     = Inr (PDict [(''width'', PFloat (Finite 0)), (''height'', PFloat (Finite 24))])
   \<and> ApplySensor_execute blender
       (single_format (PDict [(''mm'',
          PDict [(''width'', PFloat (Finite 0)), (''height'', PFloat (Finite 24))])])) ctx0
     = (Inr CANCELLED, ctx0\<lparr>reports := [(WARNING, No_sensor_data)]\<rparr>)"
  by (simp add: apply_defs)

text \<open>
  C4, amended. When the \<^verbatim>\<open>mm\<close> object is present, \<^verbatim>\<open>CSD_OT_ApplySensor.execute\<close> hands its
  width/height pair to the camera whenever both fields are present, are true in Python's
  sense (for a number: not zero) and are values the camera's setter takes; it cancels with
  the ``no sensor data'' warning when a field is missing or false in that sense, so a field
  whose value is zero is treated like a missing one; it cancels with the ``data not
  found'' error when a key on the way to the \<^verbatim>\<open>mm\<close> object is missing.
\<close>

theorem sensor_applied_iff_truthy:
  "(subscripts D (leaf_path (selection ctx) ''mm'') = Inr (PDict kvs) \<and> camera ctx = Some cam
      \<and> map_of kvs ''width'' = Some w \<and> map_of kvs ''height'' = Some h \<and> truthy w \<and> truthy h
      \<and> float_prop H w = None \<and> float_prop H h = None
    \<longrightarrow> ApplySensor_execute H D ctx =
          (Inr FINISHED, report INFO (Sensor_set_to w h)
             (ctx\<lparr>camera := Some (cam\<lparr>sensor_fit := ''HORIZONTAL'', sensor_width := w,
                                      sensor_height := h\<rparr>)\<rparr>)))
   \<and> (subscripts D (leaf_path (selection ctx) ''mm'') = Inr (PDict kvs)
      \<and> ((case map_of kvs ''width'' of None \<Rightarrow> True | Some v \<Rightarrow> \<not> truthy v)
         \<or> (case map_of kvs ''height'' of None \<Rightarrow> True | Some v \<Rightarrow> \<not> truthy v))
    \<longrightarrow> ApplySensor_execute H D ctx = (Inr CANCELLED, report WARNING No_sensor_data ctx))
   \<and> (subscripts D (leaf_path (selection ctx) ''mm'') = Inl KeyError
    \<longrightarrow> ApplySensor_execute H D ctx = (Inr CANCELLED, report ERROR Sensor_data_not_found ctx))
   \<and> \<not> truthy (PInt 0) \<and> \<not> truthy (PFloat (Finite 0))"
proof (intro conjI impI)
  assume "subscripts D (leaf_path (selection ctx) ''mm'') = Inr (PDict kvs) \<and> camera ctx = Some cam
      \<and> map_of kvs ''width'' = Some w \<and> map_of kvs ''height'' = Some h \<and> truthy w \<and> truthy h
      \<and> float_prop H w = None \<and> float_prop H h = None"
  then show "ApplySensor_execute H D ctx =
          (Inr FINISHED, report INFO (Sensor_set_to w h)
             (ctx\<lparr>camera := Some (cam\<lparr>sensor_fit := ''HORIZONTAL'', sensor_width := w,
                                      sensor_height := h\<rparr>)\<rparr>))"
    by (simp add: ApplySensor_execute_def ApplySensor_try_cases)
next
  assume a: "subscripts D (leaf_path (selection ctx) ''mm'') = Inr (PDict kvs)
      \<and> ((case map_of kvs ''width'' of None \<Rightarrow> True | Some v \<Rightarrow> \<not> truthy v)
         \<or> (case map_of kvs ''height'' of None \<Rightarrow> True | Some v \<Rightarrow> \<not> truthy v))"
  then have "\<not> (truthy (case map_of kvs ''width'' of None \<Rightarrow> PNone | Some x \<Rightarrow> x)
             \<and> truthy (case map_of kvs ''height'' of None \<Rightarrow> PNone | Some x \<Rightarrow> x))"
    using falsy_field by blast
  with a show "ApplySensor_execute H D ctx = (Inr CANCELLED, report WARNING No_sensor_data ctx)"
    by (auto simp add: ApplySensor_execute_def ApplySensor_try_cases Let_def)
next
  assume "subscripts D (leaf_path (selection ctx) ''mm'') = Inl KeyError"
  then show "ApplySensor_execute H D ctx = (Inr CANCELLED, report ERROR Sensor_data_not_found ctx)"
    by (simp add: ApplySensor_execute_def ApplySensor_try_cases)
qed simp_all

theorem sensor_applied_iff_truthy_witness:
  "ApplySensor_execute blender acme ctx0
     = (Inr FINISHED,
        ctx0\<lparr>camera := Some \<lparr>sensor_fit = ''HORIZONTAL'', sensor_width = PFloat (Finite 36),
                              sensor_height = PFloat (Finite 24), camera_other = ()\<rparr>,
             reports := [(INFO, Sensor_set_to (PFloat (Finite 36)) (PFloat (Finite 24)))]\<rparr>)
   \<and> float_prop blender (PFloat (Finite 36)) = None \<and> float_prop blender (PFloat (Finite 24)) = None
   \<and> ApplySensor_execute blender
       (single_format (PDict [(''mm'', PDict [(''width'', PFloat (Finite 36))])])) ctx0
     = (Inr CANCELLED, ctx0\<lparr>reports := [(WARNING, No_sensor_data)]\<rparr>)
   \<and> ApplySensor_execute blender (single_format (PDict [])) ctx0
     = (Inr CANCELLED, ctx0\<lparr>reports := [(ERROR, Sensor_data_not_found)]\<rparr>)"
  using sensor_applied_iff_truthy
    [where H = blender and D = acme and ctx = ctx0
       and kvs = "[(''width'', PFloat (Finite 36)), (''height'', PFloat (Finite 24))]"
       and cam = "\<lparr>sensor_fit = ''AUTO'', sensor_width = PFloat (Finite 36),
                    sensor_height = PFloat (Finite 24), camera_other = ()\<rparr>"
       and w = "PFloat (Finite 36)" and h = "PFloat (Finite 24)"]
    sensor_applied_iff_truthy
    [where H = blender
       and D = "single_format (PDict [(''mm'', PDict [(''width'', PFloat (Finite 36))])])"
       and ctx = ctx0 and kvs = "[(''width'', PFloat (Finite 36))]"]
    sensor_applied_iff_truthy
    [where H = blender and D = "single_format (PDict [])" and ctx = ctx0]
  by (simp add: apply_defs acme_def)

section \<open>Lookup misses\<close>

lemma subscripts_snoc:
  "subscripts v (ks @ [k]) = bind_exn (subscripts v ks) (\<lambda>x. subscript x k)"
proof (induction ks arbitrary: v)
  case Nil
  show ?case by (cases "subscript v k") simp_all
next
  case (Cons a ks)
  show ?case by (cases "subscript v a") (simp_all add: Cons.IH)
qed

lemma leaf_path_snoc: "leaf_path p leaf = selection_path p @ [leaf]"
  by (simp add: leaf_path_def selection_path_def)

lemma miss_leaf:
  "subscripts D (selection_path p) = Inl KeyError \<Longrightarrow> subscripts D (leaf_path p leaf) = Inl KeyError"
  by (simp only: leaf_path_snoc subscripts_snoc bind_exn.simps)

text \<open>
  C5, as stated, fails on the report: on the empty dataset the selection is absent, both
  operators cancel without raising, and each reports a message of level \<^verbatim>\<open>ERROR\<close>.
\<close>

theorem lookup_miss_counterexample:
  "subscripts (PDict []) (selection_path (selection ctx0)) = Inl KeyError
   \<and> ApplySensor_execute blender (PDict []) ctx0
     = (Inr CANCELLED, ctx0\<lparr>reports := [(ERROR, Sensor_data_not_found)]\<rparr>)
   \<and> ApplyResolution_execute blender (PDict []) ctx0
     = (Inr CANCELLED, ctx0\<lparr>reports := [(ERROR, Resolution_data_not_found)]\<rparr>)"
  by (simp add: apply_defs)

text \<open>
  C5, amended. When the manufacturer, the model, \<^verbatim>\<open>"sensor dimensions"\<close> or the format of
  the selection is a missing key, both \<^verbatim>\<open>execute\<close> methods cancel, write nothing and raise
  nothing, and each reports its ``Data not found'' message at level \<^verbatim>\<open>ERROR\<close>;
  \<^verbatim>\<open>CSD_OT_ApplyResolution.poll\<close> is false.
\<close>

theorem lookup_miss_cancels_with_error_report:
  assumes "subscripts D (selection_path (selection ctx)) = Inl KeyError"
  shows "ApplySensor_execute H D ctx = (Inr CANCELLED, report ERROR Sensor_data_not_found ctx)
       \<and> ApplyResolution_execute H D ctx = (Inr CANCELLED, report ERROR Resolution_data_not_found ctx)
       \<and> ApplyResolution_poll D ctx = Inr False"
  using miss_leaf [OF assms, of "''mm''"] miss_leaf [OF assms, of "''resolution''"]
  by (simp add: ApplySensor_execute_def ApplySensor_try_cases
        ApplyResolution_execute_def ApplyResolution_try_cases
        ApplyResolution_poll_def ApplyResolution_poll_try_cases)

theorem lookup_miss_witness:
  "subscripts acme (selection_path (selection (ctx0\<lparr>selection :=
       \<lparr>manufacturers = ''Acme'', models = ''X9'', formats = ''Full Frame''\<rparr>\<rparr>))) = Inl KeyError
   \<and> ApplySensor_execute blender acme
       (ctx0\<lparr>selection := \<lparr>manufacturers = ''Acme'', models = ''X9'', formats = ''Full Frame''\<rparr>\<rparr>)
     = (Inr CANCELLED,
        ctx0\<lparr>selection := \<lparr>manufacturers = ''Acme'', models = ''X9'', formats = ''Full Frame''\<rparr>,
             reports := [(ERROR, Sensor_data_not_found)]\<rparr>)
   \<and> ApplyResolution_execute blender acme
       (ctx0\<lparr>selection := \<lparr>manufacturers = ''Acme'', models = ''X9'', formats = ''Full Frame''\<rparr>\<rparr>)
     = (Inr CANCELLED,
        ctx0\<lparr>selection := \<lparr>manufacturers = ''Acme'', models = ''X9'', formats = ''Full Frame''\<rparr>,
             reports := [(ERROR, Resolution_data_not_found)]\<rparr>)
   \<and> ApplyResolution_poll acme
       (ctx0\<lparr>selection := \<lparr>manufacturers = ''Acme'', models = ''X9'', formats = ''Full Frame''\<rparr>\<rparr>)
     = Inr False"
proof -
  have miss: "subscripts acme (selection_path (selection (ctx0\<lparr>selection :=
       \<lparr>manufacturers = ''Acme'', models = ''X9'', formats = ''Full Frame''\<rparr>\<rparr>))) = Inl KeyError"
    by (simp add: acme_def selection_path_def ctx0_def)
  show ?thesis
    using miss lookup_miss_cancels_with_error_report [OF miss, of blender]
    by (simp add: report_def ctx0_def)
qed

section \<open>What an apply writes\<close>

lemma sensor_finished:
  assumes "ApplySensor_execute H D ctx = (Inr FINISHED, c)"
  shows "\<exists>cam w h. camera ctx = Some cam
           \<and> c = report INFO (Sensor_set_to w h)
                   (ctx\<lparr>camera := Some (cam\<lparr>sensor_fit := ''HORIZONTAL'', sensor_width := w,
                                            sensor_height := h\<rparr>)\<rparr>)"
proof -
  from assms have t: "ApplySensor_try H D ctx = (Inr FINISHED, c)"
    by (simp only: ApplySensor_execute_def handler_finished)
  show ?thesis
  proof (cases "subscripts D (leaf_path (selection ctx) ''mm'')")
    case (Inl e)
    with t show ?thesis by (simp add: ApplySensor_try_cases)
  next
    case (Inr res)
    show ?thesis
    proof (cases res)
      case (PDict kvs)
      with t Inr show ?thesis
        by (cases "camera ctx")
           (auto simp add: ApplySensor_try_cases Let_def split: if_splits option.splits)
    qed (use t Inr in \<open>simp_all add: ApplySensor_try_cases\<close>)
  qed
qed

text \<open>
  C9, as stated, fails on \<^verbatim>\<open>sensor_fit\<close>: the camera had \<^verbatim>\<open>'AUTO'\<close>, and after a successful
  apply it has \<^verbatim>\<open>'HORIZONTAL'\<close>.
\<close>

theorem sensor_fit_counterexample:
  "camera ctx0 = Some \<lparr>sensor_fit = ''AUTO'', sensor_width = PFloat (Finite 36),
                       sensor_height = PFloat (Finite 24), camera_other = ()\<rparr>
   \<and> ApplySensor_execute blender
       (single_format (PDict [(''mm'',
          PDict [(''width'', PFloat (Finite 36)), (''height'', PFloat (Finite 24))])])) ctx0
     = (Inr FINISHED,
        ctx0\<lparr>camera := Some \<lparr>sensor_fit = ''HORIZONTAL'', sensor_width = PFloat (Finite 36),
                              sensor_height = PFloat (Finite 24), camera_other = ()\<rparr>,
             reports := [(INFO, Sensor_set_to (PFloat (Finite 36)) (PFloat (Finite 24)))]\<rparr>)"
  by (simp add: apply_defs)

text \<open>
  C9, amended. A successful \<^verbatim>\<open>CSD_OT_ApplySensor.execute\<close> assigns three fields of the
  camera, \<^verbatim>\<open>sensor_fit\<close> (set to \<^verbatim>\<open>'HORIZONTAL'\<close>), \<^verbatim>\<open>sensor_width\<close> and \<^verbatim>\<open>sensor_height\<close>, and
  leaves the rest of the camera, the render settings and the selection as they were. A
  successful \<^verbatim>\<open>CSD_OT_ApplyResolution.execute\<close> assigns \<^verbatim>\<open>resolution_x\<close> and \<^verbatim>\<open>resolution_y\<close>
  of the render settings, both instances of \<^verbatim>\<open>int\<close>, and leaves the rest of the render
  settings, the camera and the selection as they were.
\<close>

theorem apply_writes_only_these_fields:
  "(ApplySensor_execute H D ctx = (Inr FINISHED, c1) \<longrightarrow>
      (\<exists>cam w h. camera ctx = Some cam
         \<and> camera c1 = Some (cam\<lparr>sensor_fit := ''HORIZONTAL'', sensor_width := w, sensor_height := h\<rparr>)
         \<and> render c1 = render ctx \<and> selection c1 = selection ctx))
   \<and> (ApplyResolution_execute H D ctx = (Inr FINISHED, c2) \<longrightarrow>
      (\<exists>w h. isinstance_int w \<and> isinstance_int h
         \<and> render c2 = (render ctx)\<lparr>resolution_x := w, resolution_y := h\<rparr>
         \<and> camera c2 = camera ctx \<and> selection c2 = selection ctx))"
proof (intro conjI impI)
  assume "ApplySensor_execute H D ctx = (Inr FINISHED, c1)"
  from sensor_finished [OF this] obtain cam w h where "camera ctx = Some cam"
    and "c1 = report INFO (Sensor_set_to w h)
                (ctx\<lparr>camera := Some (cam\<lparr>sensor_fit := ''HORIZONTAL'', sensor_width := w,
                                         sensor_height := h\<rparr>)\<rparr>)"
    by blast
  then show "\<exists>cam w h. camera ctx = Some cam
         \<and> camera c1 = Some (cam\<lparr>sensor_fit := ''HORIZONTAL'', sensor_width := w, sensor_height := h\<rparr>)
         \<and> render c1 = render ctx \<and> selection c1 = selection ctx"
    by (intro exI [of _ cam] exI [of _ w] exI [of _ h]) (simp add: report_def)
next
  assume "ApplyResolution_execute H D ctx = (Inr FINISHED, c2)"
  from resolution_finished [OF this] obtain w h where "isinstance_int w" "isinstance_int h"
    and "c2 = report INFO (Resolution_set_to w h)
                (ctx\<lparr>render := (render ctx)\<lparr>resolution_x := w, resolution_y := h\<rparr>\<rparr>)"
    by blast
  then show "\<exists>w h. isinstance_int w \<and> isinstance_int h
         \<and> render c2 = (render ctx)\<lparr>resolution_x := w, resolution_y := h\<rparr>
         \<and> camera c2 = camera ctx \<and> selection c2 = selection ctx"
    by (intro exI [of _ w] exI [of _ h]) (simp add: report_def)
qed

theorem apply_writes_witness:
  "ApplySensor_execute blender acme (ctx0\<lparr>selection :=
        \<lparr>manufacturers = ''Acme'', models = ''X1'', formats = ''APS-C''\<rparr>\<rparr>)
     = (Inr FINISHED,
        ctx0\<lparr>camera := Some \<lparr>sensor_fit = ''HORIZONTAL'', sensor_width = PFloat (Finite (47 / 2)),
                              sensor_height = PFloat (Finite (78 / 5)), camera_other = ()\<rparr>,
             selection := \<lparr>manufacturers = ''Acme'', models = ''X1'', formats = ''APS-C''\<rparr>,
             reports := [(INFO, Sensor_set_to (PFloat (Finite (47 / 2))) (PFloat (Finite (78 / 5))))]\<rparr>)
   \<and> ApplyResolution_execute blender acme ctx0
     = (Inr FINISHED,
        ctx0\<lparr>render := \<lparr>resolution_x = PInt 8192, resolution_y = PInt 5464, render_other = ()\<rparr>,
             reports := [(INFO, Resolution_set_to (PInt 8192) (PInt 5464))]\<rparr>)"
  using apply_writes_only_these_fields
    [where H = blender and D = acme
       and ctx = "ctx0\<lparr>selection := \<lparr>manufacturers = ''Acme'', models = ''X1'', formats = ''APS-C''\<rparr>\<rparr>"
       and ?c1.0 = "ctx0\<lparr>camera := Some \<lparr>sensor_fit = ''HORIZONTAL'', sensor_width = PFloat (Finite (47 / 2)),
                                  sensor_height = PFloat (Finite (78 / 5)), camera_other = ()\<rparr>,
                 selection := \<lparr>manufacturers = ''Acme'', models = ''X1'', formats = ''APS-C''\<rparr>,
                 reports := [(INFO, Sensor_set_to (PFloat (Finite (47 / 2))) (PFloat (Finite (78 / 5))))]\<rparr>"]
    apply_writes_only_these_fields
    [where H = blender and D = acme and ctx = ctx0
       and ?c2.0 = "ctx0\<lparr>render := \<lparr>resolution_x = PInt 8192, resolution_y = PInt 5464, render_other = ()\<rparr>,
                 reports := [(INFO, Resolution_set_to (PInt 8192) (PInt 5464))]\<rparr>"]
  by (simp add: apply_defs acme_def)

section \<open>A setter that raises\<close>

text \<open>
  The operators catch \<^verbatim>\<open>KeyError\<close> only, so what a setter raises leaves \<^verbatim>\<open>execute\<close>, after
  the assignments that came before it. On the host of the examples: a width given as a
  string passes the truth test and is refused by the camera, when \<^verbatim>\<open>sensor_fit\<close> has been
  set; a width of \<^verbatim>\<open>2147483648\<close> passes the \<^verbatim>\<open>int\<close> check and is refused by the render
  settings.
\<close>

lemma sensor_setter_raises:
  "ApplySensor_execute blender
     (single_format (PDict [(''mm'',
        PDict [(''width'', PStr ''36''), (''height'', PFloat (Finite 24))])])) ctx0
   = (Inl TypeError,
      ctx0\<lparr>camera := Some \<lparr>sensor_fit = ''HORIZONTAL'', sensor_width = PFloat (Finite 36),
                            sensor_height = PFloat (Finite 24), camera_other = ()\<rparr>\<rparr>)"
  by (simp add: apply_defs)

lemma resolution_setter_raises:
  "ApplyResolution_execute blender
     (single_format (PDict [(''resolution'',
        PDict [(''width'', PInt 2147483648), (''height'', PBool True)])])) ctx0
   = (Inl ValueError, ctx0)"
  by (simp add: apply_defs)

section \<open>Loading the dataset\<close>

lemmas store_defs = load_sensor_data_def print_def json_sample_def st0_def ev0_def
  UpdateSensors_execute_def failed_def report_app_def blender_def Let_def

text \<open>
  C2, as stated, fails on content that is JSON but not of the expected structure: the
  file holds \<^verbatim>\<open>[1]\<close>, \<^verbatim>\<open>load_sensor_data\<close> stores the list and prints ``Loaded sensor data.'',
  and the list is not a usable dataset: \<^verbatim>\<open>get_manufacturers\<close> raises on it.
\<close>

theorem load_non_object_counterexample:
  "load_sensor_data json_sample (st0\<lparr>sensors_file := Some ''[1]''\<rparr>)
     = Inr (st0\<lparr>sensors_file := Some ''[1]'', SENSOR_DATA := PList [PInt 1],
                printed := [''Camera Sensor Database: Loaded sensor data.'']\<rparr>)
   \<and> get_manufacturers (PList [PInt 1]) = Inl AttributeError"
  by (simp add: store_defs get_manufacturers_def)

text \<open>
  C2, amended. \<^verbatim>\<open>load_sensor_data\<close> does not raise and sets the empty dataset when the file
  does not exist (printing ``not found'') and when \<^verbatim>\<open>json.load\<close> raises \<^verbatim>\<open>JSONDecodeError\<close>
  (printing ``Error reading''); when the content parses as JSON it does not raise and
  stores the parsed value as it is, whatever its structure.
\<close>

theorem load_outcomes:
  "(sensors_file st = None \<longrightarrow>
      load_sensor_data jl st =
        Inr (print ''Camera Sensor Database: sensors.json not found.'' (st\<lparr>SENSOR_DATA := PDict []\<rparr>)))
   \<and> (sensors_file st = Some content \<and> jl content = Inl JSONDecodeError \<longrightarrow>
      load_sensor_data jl st =
        Inr (print ''Camera Sensor Database: Error reading sensors.json file.''
               (st\<lparr>SENSOR_DATA := PDict []\<rparr>)))
   \<and> (sensors_file st = Some content \<and> jl content = Inr v \<longrightarrow>
      load_sensor_data jl st =
        Inr (print ''Camera Sensor Database: Loaded sensor data.'' (st\<lparr>SENSOR_DATA := v\<rparr>)))"
  by (simp add: load_sensor_data_def)

theorem load_outcomes_witness:
  "load_sensor_data json_sample (st0\<lparr>sensors_file := None\<rparr>)
     = Inr (st0\<lparr>sensors_file := None, SENSOR_DATA := PDict [],
                printed := [''Camera Sensor Database: sensors.json not found.'']\<rparr>)
   \<and> load_sensor_data json_sample (st0\<lparr>sensors_file := Some ''{''\<rparr>)
     = Inr (st0\<lparr>sensors_file := Some ''{'', SENSOR_DATA := PDict [],
                printed := [''Camera Sensor Database: Error reading sensors.json file.'']\<rparr>)
   \<and> load_sensor_data json_sample (st0\<lparr>SENSOR_DATA := PDict []\<rparr>)
     = Inr (st0\<lparr>SENSOR_DATA := PDict [(''Acme'', PDict [])],
                printed := [''Camera Sensor Database: Loaded sensor data.'']\<rparr>)"
  using load_outcomes [where st = "st0\<lparr>sensors_file := None\<rparr>" and jl = json_sample]
    load_outcomes [where st = "st0\<lparr>sensors_file := Some ''{''\<rparr>" and jl = json_sample
      and content = "''{''"]
    load_outcomes [where st = "st0\<lparr>SENSOR_DATA := PDict []\<rparr>" and jl = json_sample
      and content = "''{\"Acme\": {}}''" and v = "PDict [(''Acme'', PDict [])]"]
  by (simp add: store_defs)

section \<open>Downloading the dataset\<close>

text \<open>A version document without \<^verbatim>\<open>sha\<close> gives \<^verbatim>\<open>None\<close> to the string property: on the host
  of the examples the setter raises, and the operator cancels when the file has been
  replaced and before the reload.\<close>

lemma sha_setter_raises:
  "UpdateSensors_execute blender (ev0\<lparr>urlopen_api := Inr (Inr ''{}'')\<rparr>)
     (st0\<lparr>sensors_file := None\<rparr>)
   = (CANCELLED,
      st0\<lparr>sensors_file := Some ''{\"Acme\": {}}'',
          reported := [(INFO, Downloading), (ERROR, Download_failed TypeError)]\<rparr>)"
  by (simp add: store_defs)

lemma failed_fields:
  "fst (failed e st) = CANCELLED" "sensors_file (snd (failed e st)) = sensors_file st"
  "SENSOR_DATA (snd (failed e st)) = SENSOR_DATA st"
  by (simp_all add: failed_def report_app_def)

lemma report_app_fields:
  "sensors_file (report_app l m st) = sensors_file st"
  "SENSOR_DATA (report_app l m st) = SENSOR_DATA st"
  by (simp_all add: report_app_def)

lemma no_connection:
  assumes "\<not> online_access ev \<or> urlopen_sensors ev = Inl e"
  shows "fst (UpdateSensors_execute H ev st) = CANCELLED"
    and "sensors_file (snd (UpdateSensors_execute H ev st)) = sensors_file st"
  using assms by (auto simp add: UpdateSensors_execute_def failed_fields report_app_fields)

lemma cancelled_keeps_data:
  assumes "fst (UpdateSensors_execute H ev st) = CANCELLED"
  shows "SENSOR_DATA (snd (UpdateSensors_execute H ev st)) = SENSOR_DATA st"
  using assms
  by (auto simp add: UpdateSensors_execute_def Let_def failed_fields report_app_fields
      split: if_splits sum.splits option.splits)

text \<open>
  C3, as stated, fails when the body cannot be received: \<^verbatim>\<open>open(file_path, 'wb')\<close> has
  already truncated the file when \<^verbatim>\<open>response.read()\<close> raises, so the file that held a
  dataset is left empty.
\<close>

theorem body_read_failure_counterexample:
  "sensors_file st0 = Some ''{\"Acme\": {}}''
   \<and> UpdateSensors_execute blender (ev0\<lparr>urlopen_sensors := Inr (Inl IncompleteRead)\<rparr>) st0
     = (CANCELLED,
        st0\<lparr>sensors_file := Some [],
            reported := [(INFO, Downloading), (ERROR, Download_failed IncompleteRead)]\<rparr>)"
  by (simp add: store_defs)

text \<open>
  C3, amended. When online access is disabled or \<^verbatim>\<open>urlopen\<close> of the dataset raises, the
  operator cancels and the file is what it was, byte for byte; and whenever the operator
  cancels, at whatever stage, the in-memory dataset is what it was.
\<close>

theorem failed_download_preserves:
  "(\<not> online_access ev \<or> urlopen_sensors ev = Inl e \<longrightarrow>
      fst (UpdateSensors_execute H ev st) = CANCELLED
      \<and> sensors_file (snd (UpdateSensors_execute H ev st)) = sensors_file st)
   \<and> (fst (UpdateSensors_execute H ev st) = CANCELLED \<longrightarrow>
      SENSOR_DATA (snd (UpdateSensors_execute H ev st)) = SENSOR_DATA st)"
  using no_connection [of ev e H st] cancelled_keeps_data [of H ev st] by blast

theorem failed_download_witness:
  "UpdateSensors_execute blender (ev0\<lparr>urlopen_sensors := Inl URLError\<rparr>) st0
     = (CANCELLED,
        st0\<lparr>reported := [(INFO, Downloading), (ERROR, Download_failed URLError)]\<rparr>)
   \<and> UpdateSensors_execute blender (ev0\<lparr>urlopen_api := Inl URLError\<rparr>)
       (st0\<lparr>SENSOR_DATA := PDict []\<rparr>)
     = (CANCELLED,
        st0\<lparr>SENSOR_DATA := PDict [],
            reported := [(INFO, Downloading), (ERROR, Download_failed URLError)]\<rparr>)"
  using failed_download_preserves
      [where H = blender and ev = "ev0\<lparr>urlopen_sensors := Inl URLError\<rparr>" and st = st0
         and e = URLError]
    failed_download_preserves
      [where H = blender and ev = "ev0\<lparr>urlopen_api := Inl URLError\<rparr>"
         and st = "st0\<lparr>SENSOR_DATA := PDict []\<rparr>"]
  by (simp add: store_defs)




end
